theory Spec2Isabelle
  imports Main
begin

section \<open>The registry facade of go-doudou (framework/registry/node.go)\<close>

text \<open>
  The facade keeps the membership handle, the broadcast queue and the event delegate in
  package-level variables. The model threads them through a \<open>state\<close> record. Everything
  the facade reads from outside (environment values, the constants of the config package,
  library functions of the toolkit and of the Go standard library, the clock) is collected
  in a \<open>world\<close> record that every operation receives.
\<close>

subsection \<open>Strings: fmt, strings\<close>

text \<open>The verb \<open>%d\<close> of fmt.Sprintf: decimal digits, a minus sign for negative values.\<close>

definition digit_char :: "nat \<Rightarrow> char" where
  "digit_char d = ''0123456789'' ! d"

fun show_nat :: "nat \<Rightarrow> string" where
  "show_nat n = (if n < 10 then [digit_char n] else show_nat (n div 10) @ [digit_char (n mod 10)])"

declare show_nat.simps [simp del]

definition show_int :: "int \<Rightarrow> string" where
  "show_int i = (if i < 0 then CHR ''-'' # show_nat (nat (- i)) else show_nat (nat i))"

text \<open>
  strings.Split with a one-character separator: the pieces between the separators, in
  order; the empty string gives one empty piece.
\<close>

fun strings_Split :: "string \<Rightarrow> char \<Rightarrow> string list" where
  "strings_Split [] sep = [[]]"
| "strings_Split (c # cs) sep =
     (if c = sep then [] # strings_Split cs sep
      else (case strings_Split cs sep of
              [] \<Rightarrow> [[c]]
            | x # xs \<Rightarrow> (c # x) # xs))"

text \<open>strings.LastIndex with a one-character pattern: the last position, or -1.\<close>

fun last_index_from :: "string \<Rightarrow> char \<Rightarrow> int \<Rightarrow> int \<Rightarrow> int" where
  "last_index_from [] c i acc = acc"
| "last_index_from (x # xs) c i acc = last_index_from xs c (i + 1) (if x = c then i else acc)"

definition strings_LastIndex :: "string \<Rightarrow> char \<Rightarrow> int" where
  "strings_LastIndex s c = last_index_from s c 0 (- 1)"

text \<open>strings.HasPrefix.\<close>

definition strings_HasPrefix :: "string \<Rightarrow> string \<Rightarrow> bool" where
  "strings_HasPrefix s p = (take (length p) s = p)"

subsection \<open>Durations\<close>

text \<open>
  time.Duration is an int64 count of nanoseconds. The model uses \<open>int\<close> and writes the
  two's-complement wrap-around of the multiplication out.
\<close>

type_synonym Duration = int

definition wrap64 :: "int \<Rightarrow> int" where
  "wrap64 x = (x + 2 ^ 63) mod 2 ^ 64 - 2 ^ 63"

definition Millisecond :: Duration where
  "Millisecond = 1000000"

definition Second :: Duration where
  "Second = 1000000000"

subsection \<open>Data model\<close>

datatype error = New string | Wrap error string | Unreachable "string list"

datatype jvalue = JNull | JBool bool | JNumber int | JString string | JArray "jvalue list"

datatype NodeStateType = StateAlive | StateSuspect | StateDead | StateLeft

record nodeMeta =
  Service :: string
  RouteRootPath :: string
  meta_Port :: int
  RegisterAt :: "int option"
  GoVer :: string
  GddVer :: string
  BuildUser :: string
  BuildTime :: string
  Weight :: int

record mergedMeta =
  mm_Meta :: nodeMeta
  mm_Data :: "(string \<rightharpoonup> jvalue) option"

text \<open>The zero value of a Go struct: what \<open>var mm mergedMeta\<close> holds; a nil map is \<open>None\<close>.\<close>

definition zero_nodeMeta :: nodeMeta where
  "zero_nodeMeta = \<lparr> Service = [], RouteRootPath = [], meta_Port = 0, RegisterAt = None,
     GoVer = [], GddVer = [], BuildUser = [], BuildTime = [], Weight = 0 \<rparr>"

definition zero_mergedMeta :: mergedMeta where
  "zero_mergedMeta = \<lparr> mm_Meta = zero_nodeMeta, mm_Data = None \<rparr>"

record Node =
  Name :: string
  Addr :: string
  Port :: nat
  State :: NodeStateType
  Incarnation :: nat
  Meta :: "nat list"

record TransmitLimitedQueue =
  q_RetransmitMult :: int

record delegate =
  mmeta :: mergedMeta
  queue :: TransmitLimitedQueue

record Config =
  cfg_Name :: string
  BindPort :: int
  AdvertisePort :: int
  AdvertiseAddr :: string
  IndirectChecks :: int
  SuspicionMult :: int
  GossipNodes :: int
  GossipInterval :: Duration
  ProbeInterval :: Duration
  ProbeTimeout :: Duration
  PushPullInterval :: Duration
  GossipToTheDeadTime :: Duration
  DeadNodeReclaimTime :: Duration
  TCPTimeout :: Duration
  WeightInterval :: Duration
  RetransmitMult :: int
  LogMinLevel :: string
  LogDiscard :: bool
  Delegate :: "delegate option"
  Events :: bool

subsection \<open>The world outside the facade\<close>

text \<open>
  The environment variables the facade loads (the \<open>envVariable\<close> values of the config
  package) and the default constants of that package. The package is not among the
  sources, so the constants are parameters.
\<close>

datatype envVariable =
    GddMemSeed | GddMemPort | GddMemIndirectChecks | GddLogLevel | GddMemLogDisable
  | GddMemDeadTimeout | GddMemSyncInterval | GddMemReclaimTimeout | GddMemProbeInterval
  | GddMemProbeTimeout | GddMemSuspicionMult | GddMemGossipNodes | GddMemGossipInterval
  | GddMemWeight | GddMemWeightInterval | GddMemTCPTimeout | GddMemName | GddMemHost
  | GddServiceName | GddPort | GddRouteRootPath

record defaults =
  DefaultGddMemPort :: int
  DefaultGddMemSeed :: string
  DefaultGddMemIndirectChecks :: int
  DefaultGddLogLevel :: string
  DefaultGddMemLogDisable :: bool
  DefaultGddMemDeadTimeout :: string
  DefaultGddMemSyncInterval :: string
  DefaultGddMemReclaimTimeout :: string
  DefaultGddMemProbeInterval :: string
  DefaultGddMemProbeTimeout :: string
  DefaultGddMemSuspicionMult :: int
  DefaultGddMemGossipNodes :: int
  DefaultGddMemGossipInterval :: string
  DefaultGddMemWeight :: int
  DefaultGddMemWeightInterval :: Duration
  DefaultGddMemTCPTimeout :: string
  DefaultGddServiceName :: string
  DefaultGddPort :: int
  DefaultGddRouteRootPath :: string

text \<open>
  \<open>Load\<close> is the value of an environment variable (empty when unset) and \<open>envName\<close> its
  printed name. \<open>IsEmpty\<close> (stringutils), \<open>ToIntE\<close> and \<open>ToBoolE\<close> (cast) belong to the
  toolkit; \<open>Atoi\<close> (strconv), \<open>ParseDuration\<close> (time), \<open>ToUpper\<close> (strings), \<open>Unmarshal\<close>
  and \<open>Marshal\<close> (encoding/json), \<open>Hostname\<close> (os) and \<open>Now\<close> (time) to the standard
  library; a failed conversion is \<open>None\<close> or \<open>Inl\<close>. \<open>FormatBuildTime\<close> is time.Parse
  with constants.FORMAT15 followed by Local().Format(constants.FORMAT).
  \<open>DefaultWANConfig\<close> is the configuration the memberlist package starts from,
  \<open>bindTransport\<close> the outcome of opening the transport for a configuration, and \<open>pushPull\<close> the
  membership table a seed address answers with (\<open>None\<close> when it cannot be reached).
\<close>

record world =
  dflt :: defaults
  Load :: "envVariable \<Rightarrow> string"
  envName :: "envVariable \<Rightarrow> string"
  IsEmpty :: "string \<Rightarrow> bool"
  ToIntE :: "string \<Rightarrow> int option"
  ToBoolE :: "string \<Rightarrow> bool option"
  Atoi :: "string \<Rightarrow> int option"
  ParseDuration :: "string \<Rightarrow> Duration option"
  ToUpper :: "string \<Rightarrow> string"
  Unmarshal :: "nat list \<Rightarrow> error + mergedMeta"
  Marshal :: "mergedMeta \<Rightarrow> nat list"
  Hostname :: string
  Now :: int
  runtime_Version :: string
  buildinfo_BuildTime :: string
  buildinfo_GddVer :: string
  buildinfo_BuildUser :: string
  FormatBuildTime :: "string \<Rightarrow> string option"
  DefaultWANConfig :: Config
  bindTransport :: "Config \<Rightarrow> error option"
  pushPull :: "string \<Rightarrow> Node list option"

definition IsNotEmpty :: "world \<Rightarrow> string \<Rightarrow> bool" where
  "IsNotEmpty w s = (\<not> IsEmpty w s)"

text \<open>
  The seed string and the service name as \<open>join\<close> and \<open>NewNode\<close> pick them: the
  environment value when it is not empty, the default otherwise.
\<close>

abbreviation configuredSeed :: "world \<Rightarrow> string" where
  "configuredSeed w \<equiv>
     (if IsNotEmpty w (Load w GddMemSeed) then Load w GddMemSeed else DefaultGddMemSeed (dflt w))"

abbreviation configuredService :: "world \<Rightarrow> string" where
  "configuredService w \<equiv>
     (if IsNotEmpty w (Load w GddServiceName) then Load w GddServiceName
      else DefaultGddServiceName (dflt w))"

subsection \<open>seeds\<close>

text \<open>
  The body of the loop of \<open>seeds\<close>: the value entry \<open>i\<close> holds after iteration \<open>i\<close>.
  An entry without a colon gets the default port; an entry with text after its last
  colon gets that text converted by cast.ToIntE, or the default port when the conversion
  fails; an entry that ends in a colon is not assigned.
\<close>

definition seed_entry :: "world \<Rightarrow> string \<Rightarrow> string" where
  "seed_entry w seed =
     (let li = strings_LastIndex seed CHR '':'' in
      if li < 0 then seed @ '':'' @ show_int (DefaultGddMemPort (dflt w))
      else if int (length seed) > li + 1 then
        (case ToIntE w (drop (nat (li + 1)) seed) of
           None \<Rightarrow> take (nat li) seed @ '':'' @ show_int (DefaultGddMemPort (dflt w))
         | Some port \<Rightarrow> take (nat li) seed @ '':'' @ show_int port)
      else seed)"

function seeds_loop :: "world \<Rightarrow> nat \<Rightarrow> string list \<Rightarrow> string list" where
  "seeds_loop w i s =
     (if i < length s then seeds_loop w (Suc i) (s[i := seed_entry w (s ! i)]) else s)"
  by pat_completeness auto
termination
  by (relation "measure (\<lambda>(w, i, s). length s - i)") auto

declare seeds_loop.simps [simp del]

definition seeds :: "world \<Rightarrow> string \<Rightarrow> string list" where
  "seeds w seedstr =
     (if IsEmpty w seedstr then []
      else seeds_loop w 0 (strings_Split seedstr CHR '',''))"

subsection \<open>The membership engine\<close>

text \<open>
  Modelled from the spec: the engine type of the memberlist package
  (framework/internal/memberlist), which is not among the sources. It holds its
  configuration (with the delegate) and the membership table, a list of nodes with at
  most one entry per name, and records whether it was shut down.
\<close>

record Memberlist =
  ml_config :: Config
  ml_nodes :: "Node list"
  ml_shutdown :: bool

text \<open>
  Modelled from the spec: memberlist.Create. It fails with the transport's error when
  the bind fails; otherwise the table holds the local node alone, Alive, named and
  addressed as configured, with the delegate's serialized merged meta cut to the 512
  bytes a node's meta may take.
\<close>

definition Create :: "world \<Rightarrow> Config \<Rightarrow> error + Memberlist" where
  "Create w conf =
     (case bindTransport w conf of
        Some err \<Rightarrow> Inl err
      | None \<Rightarrow>
          Inr \<lparr> ml_config = conf,
                ml_nodes = [\<lparr> Name = cfg_Name conf, Addr = AdvertiseAddr conf,
                              Port = nat (AdvertisePort conf mod 65536), State = StateAlive,
                              Incarnation = 0,
                              Meta = (case Delegate conf of
                                        None \<Rightarrow> []
                                      | Some d \<Rightarrow> take 512 (Marshal w (mmeta d))) \<rparr>],
                ml_shutdown = False \<rparr>)"

text \<open>
  Modelled from the spec: Memberlist.Members, the snapshot of every member whose state
  is not Dead or Left.
\<close>

definition Members :: "Memberlist \<Rightarrow> Node list" where
  "Members ml = filter (\<lambda>n. State n \<noteq> StateDead \<and> State n \<noteq> StateLeft) (ml_nodes ml)"

text \<open>
  Modelled from the spec: Memberlist.LocalNode, the table entry under the configured
  name, and Memberlist.NumMembers, the size of the snapshot.
\<close>

definition ml_LocalNode :: "Memberlist \<Rightarrow> Node option" where
  "ml_LocalNode ml = find (\<lambda>n. Name n = cfg_Name (ml_config ml)) (ml_nodes ml)"

definition NumMembers :: "Memberlist \<Rightarrow> int" where
  "NumMembers ml = int (length (Members ml))"

text \<open>
  Modelled from the spec: the merge of a remote view into the table. A name not yet
  known is added; for a known name the remote entry is adopted when its incarnation is
  higher, or equal with a worse state (Alive, Suspect, Dead, Left in this order).
\<close>

fun state_rank :: "NodeStateType \<Rightarrow> nat" where
  "state_rank StateAlive = 0"
| "state_rank StateSuspect = 1"
| "state_rank StateDead = 2"
| "state_rank StateLeft = 3"

fun mergeNode :: "Node \<Rightarrow> Node list \<Rightarrow> Node list" where
  "mergeNode r [] = [r]"
| "mergeNode r (n # ns) =
     (if Name n = Name r then
        (if Incarnation n < Incarnation r
            \<or> (Incarnation n = Incarnation r \<and> state_rank (State n) < state_rank (State r))
         then r # ns else n # ns)
      else n # mergeNode r ns)"

definition mergeState :: "Memberlist \<Rightarrow> Node list \<Rightarrow> Memberlist" where
  "mergeState ml remote = ml\<lparr>ml_nodes := fold mergeNode remote (ml_nodes ml)\<rparr>"

text \<open>
  Modelled from the spec: Memberlist.Join. Every address is contacted in turn; the view
  of an address that answers is merged and counted, an address that does not answer is
  noted. The result is the number of addresses joined and an error exactly when
  addresses were given and none could be reached.
\<close>

fun Join_loop :: "world \<Rightarrow> string list \<Rightarrow> Memberlist \<Rightarrow> nat \<Rightarrow> string list
    \<Rightarrow> nat \<times> Memberlist \<times> string list" where
  "Join_loop w [] ml numSuccess failed = (numSuccess, ml, failed)"
| "Join_loop w (a # as) ml numSuccess failed =
     (case pushPull w a of
        None \<Rightarrow> Join_loop w as ml numSuccess (failed @ [a])
      | Some remote \<Rightarrow> Join_loop w as (mergeState ml remote) (Suc numSuccess) failed)"

definition Join :: "world \<Rightarrow> Memberlist \<Rightarrow> string list \<Rightarrow> (nat \<times> error option) \<times> Memberlist" where
  "Join w ml existing =
     (case Join_loop w existing ml 0 [] of
        (numSuccess, ml', failed) \<Rightarrow>
          ((numSuccess, if 0 < numSuccess \<or> failed = [] then None else Some (Unreachable failed)),
           ml'))"

text \<open>
  Modelled from the spec: Memberlist.Shutdown stops the engine; Memberlist.Leave
  broadcasts the Left state of the local node.
\<close>

definition ml_Shutdown :: "Memberlist \<Rightarrow> Memberlist" where
  "ml_Shutdown ml = ml\<lparr>ml_shutdown := True\<rparr>"

definition ml_Leave :: "Memberlist \<Rightarrow> Memberlist" where
  "ml_Leave ml =
     ml\<lparr>ml_nodes := map (\<lambda>n. if Name n = cfg_Name (ml_config ml) then n\<lparr>State := StateLeft\<rparr> else n)
                        (ml_nodes ml)\<rparr>"

subsection \<open>The package-level state\<close>

text \<open>
  \<open>mlist\<close>, \<open>BroadcastQueue\<close> and \<open>events.ServiceProviders\<close> are the package
  variables; \<open>None\<close> is the nil handle. A service provider is an object behind the
  IServiceProvider interface: the model names it by a number and keeps, per provider,
  the nodes it has received through AddNode. \<open>logged\<close> is the sequence of logger calls
  (the level and the message or format string).
\<close>

datatype logcall = Warnln string | Infof string | Info string | Errorln string

record state =
  mlist :: "Memberlist option"
  BroadcastQueue :: "TransmitLimitedQueue option"
  ServiceProviders :: "nat list"
  provided :: "nat \<Rightarrow> Node list"
  logged :: "logcall list"

definition initial_state :: state where
  "initial_state = \<lparr> mlist = None, BroadcastQueue = None, ServiceProviders = [],
     provided = (\<lambda>sp. []), logged = [] \<rparr>"

text \<open>
  Modelled from the spec: IServiceProvider.AddNode (the interface and its implementations
  are not among the sources). The provider receives the node; the model appends it to
  what the provider holds.
\<close>

definition AddNode :: "nat \<Rightarrow> Node \<Rightarrow> state \<Rightarrow> state" where
  "AddNode sp node st = st\<lparr>provided := (provided st)(sp := provided st sp @ [node])\<rparr>"

subsection \<open>join, AllNodes, newMeta\<close>

definition join :: "world \<Rightarrow> state \<Rightarrow> error option \<times> state" where
  "join w st =
     (case mlist st of
        None \<Rightarrow> (Some (New ''mlist is nil''), st)
      | Some ml \<Rightarrow>
          (let seed = (if IsNotEmpty w (Load w GddMemSeed) then Load w GddMemSeed
                       else DefaultGddMemSeed (dflt w));
               s = seeds w seed
           in if length s = 0 then (None, st\<lparr>logged := logged st @ [Warnln ''No seed found'']\<rparr>)
              else (case Join w ml s of
                      ((n, Some err), ml') \<Rightarrow>
                        (Some (Wrap err ''Failed to join cluster''), st\<lparr>mlist := Some ml'\<rparr>)
                    | ((n, None), ml') \<Rightarrow>
                        (None, st\<lparr>mlist := Some ml',
                                   logged := logged st @ [Infof ''Node %s joined cluster successfully'']\<rparr>))))"

text \<open>The loop of \<open>AllNodes\<close> appends every element of the snapshot to a nil slice.\<close>

definition AllNodes :: "state \<Rightarrow> error + Node list" where
  "AllNodes st =
     (case mlist st of
        None \<Rightarrow> Inl (New ''mlist is nil'')
      | Some ml \<Rightarrow> Inr (foldl (\<lambda>nodes node. nodes @ [node]) [] (Members ml)))"

definition newMeta :: "world \<Rightarrow> Node \<Rightarrow> error + mergedMeta" where
  "newMeta w node =
     (if 0 < length (Meta node) then
        (case Unmarshal w (Meta node) of
           Inl err \<Rightarrow> Inl (Wrap err ''Unmarshal node meta failed, not a valid json'')
         | Inr mm \<Rightarrow> Inr mm)
      else Inr zero_mergedMeta)"

subsection \<open>newConf\<close>

text \<open>
  Every duration option is read by the same lines, written once here: the default
  constant first (a duration string read by time.ParseDuration, whose error is dropped
  and leaves 0), then, when the environment value is not empty, strconv.Atoi times the
  unit of the field (an int64 multiplication: \<open>int\<close> has 64 bits), or else
  time.ParseDuration, or else the default stays. \<open>configuredWeight\<close> is the weight as
  both \<open>newConf\<close> and \<open>NewNode\<close> read it.
\<close>

definition parseOrZero :: "world \<Rightarrow> string \<Rightarrow> Duration" where
  "parseOrZero w s = (case ParseDuration w s of Some d \<Rightarrow> d | None \<Rightarrow> 0)"

definition durationOption :: "world \<Rightarrow> Duration \<Rightarrow> Duration \<Rightarrow> string \<Rightarrow> Duration" where
  "durationOption w deflt unit str =
     (if IsNotEmpty w str then
        (case Atoi w str of
           Some n \<Rightarrow> wrap64 (n * unit)
         | None \<Rightarrow> (case ParseDuration w str of Some duration \<Rightarrow> duration | None \<Rightarrow> deflt))
      else deflt)"

definition configuredWeight :: "world \<Rightarrow> int" where
  "configuredWeight w =
     (case ToIntE w (Load w GddMemWeight) of Some x \<Rightarrow> x | None \<Rightarrow> DefaultGddMemWeight (dflt w))"

definition newConf :: "world \<Rightarrow> Config" where
  "newConf w =
     (let cfg = DefaultWANConfig w;
          cfg = cfg\<lparr>IndirectChecks :=
                  (case ToIntE w (Load w GddMemIndirectChecks) of
                     Some indirectChecks \<Rightarrow> indirectChecks
                   | None \<Rightarrow> DefaultGddMemIndirectChecks (dflt w))\<rparr>;
          minLevel =
            (if IsNotEmpty w (Load w GddLogLevel) then
               (let u = ToUpper w (Load w GddLogLevel) in
                if u = ''ERROR'' then ''ERR'' else if u = ''WARNING'' then ''WARN'' else u)
             else DefaultGddLogLevel (dflt w));
          disable = (case ToBoolE w (Load w GddMemLogDisable) of
                       Some d \<Rightarrow> d | None \<Rightarrow> DefaultGddMemLogDisable (dflt w));
          cfg = cfg\<lparr>LogMinLevel := minLevel, LogDiscard := disable\<rparr>;
          cfg = cfg\<lparr>GossipToTheDeadTime :=
                  durationOption w (parseOrZero w (DefaultGddMemDeadTimeout (dflt w))) Second
                    (Load w GddMemDeadTimeout)\<rparr>;
          cfg = cfg\<lparr>PushPullInterval :=
                  durationOption w (parseOrZero w (DefaultGddMemSyncInterval (dflt w))) Second
                    (Load w GddMemSyncInterval)\<rparr>;
          cfg = cfg\<lparr>DeadNodeReclaimTime :=
                  durationOption w (parseOrZero w (DefaultGddMemReclaimTimeout (dflt w))) Second
                    (Load w GddMemReclaimTimeout)\<rparr>;
          cfg = cfg\<lparr>ProbeInterval :=
                  durationOption w (parseOrZero w (DefaultGddMemProbeInterval (dflt w))) Second
                    (Load w GddMemProbeInterval)\<rparr>;
          cfg = cfg\<lparr>ProbeTimeout :=
                  durationOption w (parseOrZero w (DefaultGddMemProbeTimeout (dflt w))) Second
                    (Load w GddMemProbeTimeout)\<rparr>;
          cfg = cfg\<lparr>SuspicionMult :=
                  (case ToIntE w (Load w GddMemSuspicionMult) of
                     Some sm \<Rightarrow> sm | None \<Rightarrow> DefaultGddMemSuspicionMult (dflt w))\<rparr>;
          cfg = cfg\<lparr>GossipNodes :=
                  (case ToIntE w (Load w GddMemGossipNodes) of
                     Some gn \<Rightarrow> gn | None \<Rightarrow> DefaultGddMemGossipNodes (dflt w))\<rparr>;
          cfg = cfg\<lparr>GossipInterval :=
                  durationOption w (parseOrZero w (DefaultGddMemGossipInterval (dflt w))) Millisecond
                    (Load w GddMemGossipInterval)\<rparr>;
          weight = configuredWeight w;
          cfg = (if 0 < weight then cfg\<lparr>WeightInterval := 0\<rparr>
                 else cfg\<lparr>WeightInterval :=
                        durationOption w (DefaultGddMemWeightInterval (dflt w)) Millisecond
                          (Load w GddMemWeightInterval)\<rparr>);
          cfg = cfg\<lparr>TCPTimeout :=
                  durationOption w (parseOrZero w (DefaultGddMemTCPTimeout (dflt w))) Second
                    (Load w GddMemTCPTimeout)\<rparr>;
          cfg = (if IsNotEmpty w (Load w GddMemName) then cfg\<lparr>cfg_Name := Load w GddMemName\<rparr>
                 else cfg);
          memport = (case ToIntE w (Load w GddMemPort) of
                       Some m \<Rightarrow> m | None \<Rightarrow> DefaultGddMemPort (dflt w));
          cfg = cfg\<lparr>BindPort := memport, AdvertisePort := memport\<rparr>;
          memhost = Load w GddMemHost
      in if IsNotEmpty w memhost then
           (if strings_HasPrefix memhost ''.'' then cfg\<lparr>AdvertiseAddr := Hostname w @ memhost\<rparr>
            else cfg\<lparr>AdvertiseAddr := memhost\<rparr>)
         else cfg)"

subsection \<open>NewNode, Shutdown, Leave\<close>

text \<open>
  The variadic parameter \<open>data\<close> is the list of the maps passed (\<open>None\<close> is a nil map).
  The closure \<open>NumNodes\<close> of the broadcast queue reads the package variable \<open>mlist\<close>.
  On a failed join the engine is shut down and the handle stays in \<open>mlist\<close>.
\<close>

definition NumNodes :: "state \<Rightarrow> int" where
  "NumNodes st = (case mlist st of None \<Rightarrow> 0 | Some ml \<Rightarrow> NumMembers ml)"

definition NewNode :: "world \<Rightarrow> (string \<rightharpoonup> jvalue) option list \<Rightarrow> state \<Rightarrow> error option \<times> state" where
  "NewNode w data st =
     (let mconf = newConf w;
          service = (if IsNotEmpty w (Load w GddServiceName) then Load w GddServiceName
                     else DefaultGddServiceName (dflt w))
      in if IsEmpty w service then
           (Some (New (''NewNode() error: No env variable '' @ envName w GddServiceName @ '' found'')),
            st)
         else
           (let httpPort = (case ToIntE w (Load w GddPort) of
                              Some port \<Rightarrow> port | None \<Rightarrow> DefaultGddPort (dflt w));
                now = Now w;
                buildTime =
                  (if IsNotEmpty w (buildinfo_BuildTime w) then
                     (case FormatBuildTime w (buildinfo_BuildTime w) of Some t \<Rightarrow> t | None \<Rightarrow> [])
                   else []);
                rr = (if IsNotEmpty w (Load w GddRouteRootPath) then Load w GddRouteRootPath
                      else DefaultGddRouteRootPath (dflt w));
                weight = configuredWeight w;
                mmeta0 = \<lparr> mm_Meta = \<lparr> Service = service, RouteRootPath = rr, meta_Port = httpPort,
                                         RegisterAt = Some now, GoVer = runtime_Version w,
                                         GddVer = buildinfo_GddVer w, BuildUser = buildinfo_BuildUser w,
                                         BuildTime = buildTime, Weight = weight \<rparr>,
                           mm_Data = Some Map.empty \<rparr>;
                mmeta1 = (if 0 < length data then mmeta0\<lparr>mm_Data := data ! 0\<rparr> else mmeta0);
                q = \<lparr> q_RetransmitMult = RetransmitMult mconf \<rparr>;
                st = st\<lparr>BroadcastQueue := Some q\<rparr>;
                mconf = mconf\<lparr>Delegate := Some \<lparr> mmeta = mmeta1, queue = q \<rparr>, Events := True\<rparr>
            in case Create w mconf of
                 Inl err \<Rightarrow>
                   (Some (Wrap err ''NewNode() error: Failed to create memberlist''),
                    st\<lparr>mlist := None\<rparr>)
               | Inr ml \<Rightarrow>
                   (case join w (st\<lparr>mlist := Some ml\<rparr>) of
                      (Some err, st') \<Rightarrow>
                        (Some (Wrap err ''NewNode() error: Node register failed''),
                         st'\<lparr>mlist := map_option ml_Shutdown (mlist st')\<rparr>)
                    | (None, st') \<Rightarrow>
                        (None,
                         st'\<lparr>logged := logged st' @
                            [Infof ''memberlist created. local node is Node %s, providing %s service at %s, memberlist port %s'']\<rparr>))))"

definition Shutdown :: "state \<Rightarrow> state" where
  "Shutdown st =
     (case mlist st of
        None \<Rightarrow> st
      | Some ml \<Rightarrow> st\<lparr>mlist := None, logged := logged st @ [Info ''memberlist shutdown'']\<rparr>)"

definition Leave :: "Duration \<Rightarrow> state \<Rightarrow> state" where
  "Leave timeout st =
     (case mlist st of
        None \<Rightarrow> st
      | Some ml \<Rightarrow> st\<lparr>mlist := Some (ml_Leave ml),
                        logged := logged st @ [Info ''local node left the cluster'']\<rparr>)"

subsection \<open>BaseUrl, MetaWeight, SvcName, RegisterServiceProvider, LocalNode\<close>

definition BaseUrl :: "world \<Rightarrow> Node \<Rightarrow> error + string" where
  "BaseUrl w node =
     (case newMeta w node of
        Inl err \<Rightarrow> Inl err
      | Inr mm \<Rightarrow>
          Inr (''http://'' @ Addr node @ '':'' @ show_int (meta_Port (mm_Meta mm))
                 @ RouteRootPath (mm_Meta mm)))"

definition MetaWeight :: "world \<Rightarrow> Node \<Rightarrow> error + int" where
  "MetaWeight w node =
     (case newMeta w node of Inl err \<Rightarrow> Inl err | Inr mm \<Rightarrow> Inr (Weight (mm_Meta mm)))"

definition SvcName :: "world \<Rightarrow> Node \<Rightarrow> state \<Rightarrow> string \<times> state" where
  "SvcName w node st =
     (case newMeta w node of
        Inl err \<Rightarrow> ([], st\<lparr>logged := logged st @ [Errorln ''%+v'']\<rparr>)
      | Inr mm \<Rightarrow> (Service (mm_Meta mm), st))"

definition RegisterServiceProvider :: "nat \<Rightarrow> state \<Rightarrow> state" where
  "RegisterServiceProvider sp st =
     (case mlist st of
        None \<Rightarrow> st
      | Some ml \<Rightarrow>
          (let st = fold (AddNode sp) (Members ml) st
           in st\<lparr>ServiceProviders := ServiceProviders st @ [sp]\<rparr>))"

definition LocalNode :: "state \<Rightarrow> Node option" where
  "LocalNode st = (case mlist st of None \<Rightarrow> None | Some ml \<Rightarrow> ml_LocalNode ml)"

subsection \<open>What a caller receives\<close>

text \<open>
  The results of a call as the Go signatures give them: \<open>AllNodes\<close> returns a slice and
  an error, \<open>LocalNode\<close> a node pointer only, \<open>RegisterServiceProvider\<close> and \<open>Shutdown\<close>
  nothing. The error a call reports is the error result of its signature when that is
  not nil.
\<close>

datatype operation = Op_AllNodes | Op_LocalNode | Op_RegisterServiceProvider nat | Op_Shutdown

datatype results = Results_AllNodes "error + Node list" | Results_LocalNode "Node option" | Results_none

fun invoke :: "operation \<Rightarrow> state \<Rightarrow> results \<times> state" where
  "invoke Op_AllNodes st = (Results_AllNodes (AllNodes st), st)"
| "invoke Op_LocalNode st = (Results_LocalNode (LocalNode st), st)"
| "invoke (Op_RegisterServiceProvider sp) st = (Results_none, RegisterServiceProvider sp st)"
| "invoke Op_Shutdown st = (Results_none, Shutdown st)"

fun reported_error :: "results \<Rightarrow> error option" where
  "reported_error (Results_AllNodes (Inl err)) = Some err"
| "reported_error (Results_AllNodes (Inr nodes)) = None"
| "reported_error (Results_LocalNode node) = None"
| "reported_error Results_none = None"

subsection \<open>A concrete world\<close>

text \<open>
  A world to run the facade in: decimal conversion for \<open>ToIntE\<close> and \<open>Atoi\<close>, durations
  written as digits followed by \<open>s\<close> or \<open>ms\<close> (or the single digit 0), a string being
  empty when it holds blanks only, and the defaults the spec documents. The JSON codec
  of this world knows one document, the byte 1, for the meta \<open>example_meta\<close>.
\<close>

definition is_digit :: "char \<Rightarrow> bool" where
  "is_digit c = (c \<in> set ''0123456789'')"

definition digit_val :: "char \<Rightarrow> nat" where
  "digit_val c = of_char c - 48"

definition parse_nat :: "string \<Rightarrow> nat option" where
  "parse_nat s =
     (if s \<noteq> [] \<and> list_all is_digit s then Some (foldl (\<lambda>acc c. 10 * acc + digit_val c) 0 s)
      else None)"

definition parse_decimal :: "string \<Rightarrow> int option" where
  "parse_decimal s =
     (case s of
        [] \<Rightarrow> None
      | c # cs \<Rightarrow>
          (if c = CHR ''-'' then map_option (\<lambda>n. - int n) (parse_nat cs)
           else if c = CHR ''+'' then map_option int (parse_nat cs)
           else map_option int (parse_nat s)))"

definition parse_duration :: "string \<Rightarrow> Duration option" where
  "parse_duration s =
     (if s = ''0'' then Some 0
      else (case parse_nat (takeWhile is_digit s) of
              None \<Rightarrow> None
            | Some n \<Rightarrow>
                (if dropWhile is_digit s = ''s'' then Some (int n * Second)
                 else if dropWhile is_digit s = ''ms'' then Some (int n * Millisecond)
                 else None)))"

definition env_of :: "(envVariable \<times> string) list \<Rightarrow> envVariable \<Rightarrow> string" where
  "env_of kvs k = (case map_of kvs k of None \<Rightarrow> [] | Some v \<Rightarrow> v)"

definition example_defaults :: defaults where
  "example_defaults = \<lparr>
     DefaultGddMemPort = 7946, DefaultGddMemSeed = [], DefaultGddMemIndirectChecks = 3,
     DefaultGddLogLevel = ''INFO'', DefaultGddMemLogDisable = False,
     DefaultGddMemDeadTimeout = ''30s'', DefaultGddMemSyncInterval = ''30s'',
     DefaultGddMemReclaimTimeout = ''0'', DefaultGddMemProbeInterval = ''1s'',
     DefaultGddMemProbeTimeout = ''500ms'', DefaultGddMemSuspicionMult = 4,
     DefaultGddMemGossipNodes = 3, DefaultGddMemGossipInterval = ''200ms'',
     DefaultGddMemWeight = 0, DefaultGddMemWeightInterval = 0,
     DefaultGddMemTCPTimeout = ''10s'', DefaultGddServiceName = [], DefaultGddPort = 6060,
     DefaultGddRouteRootPath = [] \<rparr>"

definition example_meta :: mergedMeta where
  "example_meta = \<lparr> mm_Meta = \<lparr> Service = ''svc'', RouteRootPath = ''/api'', meta_Port = 6060,
       RegisterAt = Some 0, GoVer = ''go1.17'', GddVer = ''v1'', BuildUser = ''u'',
       BuildTime = [], Weight = 0 \<rparr>,
     mm_Data = Some Map.empty \<rparr>"

definition example_config :: Config where
  "example_config = \<lparr> cfg_Name = ''host1'', BindPort = 7946, AdvertisePort = 7946,
     AdvertiseAddr = [], IndirectChecks = 3, SuspicionMult = 6, GossipNodes = 4,
     GossipInterval = 500 * Millisecond, ProbeInterval = 5 * Second, ProbeTimeout = 3 * Second,
     PushPullInterval = 60 * Second, GossipToTheDeadTime = 60 * Second,
     DeadNodeReclaimTime = 0, TCPTimeout = 30 * Second, WeightInterval = 0,
     RetransmitMult = 4, LogMinLevel = [], LogDiscard = False, Delegate = None,
     Events = False \<rparr>"

definition example_world :: "(envVariable \<times> string) list \<Rightarrow> world" where
  "example_world kvs = \<lparr>
     dflt = example_defaults,
     Load = env_of kvs,
     envName = (\<lambda>k. ''GDD_ENV''),
     IsEmpty = list_all (\<lambda>c. c = CHR '' ''),
     ToIntE = parse_decimal,
     ToBoolE = (\<lambda>s. if s = ''true'' then Some True else if s = ''false'' then Some False else None),
     Atoi = parse_decimal,
     ParseDuration = parse_duration,
     ToUpper = (\<lambda>s. s),
     Unmarshal = (\<lambda>bs. if bs = [1] then Inr example_meta else Inl (New ''invalid character'')),
     Marshal = (\<lambda>mm. [1]),
     Hostname = ''host1'',
     Now = 0,
     runtime_Version = ''go1.17'',
     buildinfo_BuildTime = [],
     buildinfo_GddVer = ''v1'',
     buildinfo_BuildUser = ''u'',
     FormatBuildTime = (\<lambda>s. None),
     DefaultWANConfig = example_config,
     bindTransport = (\<lambda>conf. None),
     pushPull = (\<lambda>a. None) \<rparr>"

definition example_node :: "NodeStateType \<Rightarrow> string \<Rightarrow> Node" where
  "example_node s n = \<lparr> Name = n, Addr = ''10.0.0.1'', Port = 7946, State = s,
     Incarnation = 0, Meta = [1] \<rparr>"

definition example_memberlist :: Memberlist where
  "example_memberlist = \<lparr> ml_config = example_config,
     ml_nodes = [example_node StateAlive ''host1'', example_node StateDead ''host2'',
                 example_node StateSuspect ''host3'', example_node StateLeft ''host4''],
     ml_shutdown = False \<rparr>"

text \<open>Environments of the concrete world used below.\<close>

definition standalone_world :: world where
  "standalone_world = example_world [(GddServiceName, ''svc'')]"

definition seeded_world :: world where
  "seeded_world = example_world [(GddServiceName, ''svc''), (GddMemSeed, ''peer'')]"

definition port_world :: world where
  "port_world = example_world [(GddMemPort, ''8000'')]"

definition duration_world :: world where
  "duration_world = example_world [(GddMemProbeInterval, ''5''), (GddMemGossipInterval, ''300ms''),
     (GddMemTCPTimeout, ''x''), (GddMemWeightInterval, ''1000'')]"

definition pinned_world :: world where
  "pinned_world = example_world [(GddMemWeight, ''5''), (GddMemWeightInterval, ''1000'')]"

definition overflow_world :: world where
  "overflow_world = example_world [(GddMemProbeInterval, ''9223372037'')]"

definition created_state :: state where
  "created_state = initial_state\<lparr>mlist := Some example_memberlist\<rparr>"

subsection \<open>The duration options, as the spec lists them\<close>

text \<open>
  The spec's table of the duration options of the configuration: for each option the
  field of the configuration it sets, the environment variable it is read from, the
  unit of a bare integer (seconds, except milliseconds for the gossip and the weight
  interval) and the default (the default constants of the config package, which are
  duration strings except for the weight interval). \<open>newConf\<close> above does not use this
  table; the properties compare the two.
\<close>

datatype durationOptionName =
    ProbeIntervalOpt | ProbeTimeoutOpt | GossipIntervalOpt | PushPullIntervalOpt
  | TCPTimeoutOpt | GossipToTheDeadTimeOpt | DeadNodeReclaimTimeOpt | WeightIntervalOpt

fun option_field :: "durationOptionName \<Rightarrow> Config \<Rightarrow> Duration" where
  "option_field ProbeIntervalOpt = ProbeInterval"
| "option_field ProbeTimeoutOpt = ProbeTimeout"
| "option_field GossipIntervalOpt = GossipInterval"
| "option_field PushPullIntervalOpt = PushPullInterval"
| "option_field TCPTimeoutOpt = TCPTimeout"
| "option_field GossipToTheDeadTimeOpt = GossipToTheDeadTime"
| "option_field DeadNodeReclaimTimeOpt = DeadNodeReclaimTime"
| "option_field WeightIntervalOpt = WeightInterval"

fun option_key :: "durationOptionName \<Rightarrow> envVariable" where
  "option_key ProbeIntervalOpt = GddMemProbeInterval"
| "option_key ProbeTimeoutOpt = GddMemProbeTimeout"
| "option_key GossipIntervalOpt = GddMemGossipInterval"
| "option_key PushPullIntervalOpt = GddMemSyncInterval"
| "option_key TCPTimeoutOpt = GddMemTCPTimeout"
| "option_key GossipToTheDeadTimeOpt = GddMemDeadTimeout"
| "option_key DeadNodeReclaimTimeOpt = GddMemReclaimTimeout"
| "option_key WeightIntervalOpt = GddMemWeightInterval"

fun option_unit :: "durationOptionName \<Rightarrow> Duration" where
  "option_unit GossipIntervalOpt = Millisecond"
| "option_unit WeightIntervalOpt = Millisecond"
| "option_unit opt = Second"

fun option_default :: "world \<Rightarrow> durationOptionName \<Rightarrow> Duration" where
  "option_default w ProbeIntervalOpt = parseOrZero w (DefaultGddMemProbeInterval (dflt w))"
| "option_default w ProbeTimeoutOpt = parseOrZero w (DefaultGddMemProbeTimeout (dflt w))"
| "option_default w GossipIntervalOpt = parseOrZero w (DefaultGddMemGossipInterval (dflt w))"
| "option_default w PushPullIntervalOpt = parseOrZero w (DefaultGddMemSyncInterval (dflt w))"
| "option_default w TCPTimeoutOpt = parseOrZero w (DefaultGddMemTCPTimeout (dflt w))"
| "option_default w GossipToTheDeadTimeOpt = parseOrZero w (DefaultGddMemDeadTimeout (dflt w))"
| "option_default w DeadNodeReclaimTimeOpt = parseOrZero w (DefaultGddMemReclaimTimeout (dflt w))"
| "option_default w WeightIntervalOpt = DefaultGddMemWeightInterval (dflt w)"

section \<open>Properties\<close>

subsection \<open>Auxiliary facts\<close>

lemma foldl_append_single: "foldl (\<lambda>nodes node. nodes @ [node]) acc xs = acc @ xs"
  by (induction xs arbitrary: acc) simp_all

lemma mlist_Shutdown: "mlist (Shutdown st) = None"
  by (simp add: Shutdown_def split: option.splits)

lemma show_nat_6060: "show_nat 6060 = ''6060''"
  by (simp add: show_nat.simps[of 6060] show_nat.simps[of 606] show_nat.simps[of 60]
      show_nat.simps[of 6] digit_char_def)

lemma parse_decimal_5: "parse_decimal ''5'' = Some 5"
  by (simp add: parse_decimal_def parse_nat_def is_digit_def digit_val_def)

lemma parse_decimal_1000: "parse_decimal ''1000'' = Some 1000"
  by (simp add: parse_decimal_def parse_nat_def is_digit_def digit_val_def)

lemma parse_decimal_empty: "parse_decimal [] = None"
  by (simp add: parse_decimal_def)

lemma show_nat_7946: "show_nat 7946 = ''7946''"
  by (simp add: show_nat.simps[of 7946] show_nat.simps[of 794] show_nat.simps[of 79]
      show_nat.simps[of 7] digit_char_def)

lemma show_nat_12: "show_nat 12 = ''12''"
  by (simp add: show_nat.simps[of 12] show_nat.simps[of "Suc 0"] digit_char_def)

lemma show_nat_8000: "show_nat 8000 = ''8000''"
  by (simp add: show_nat.simps[of 8000] show_nat.simps[of 800] show_nat.simps[of 80]
      show_nat.simps[of 8] digit_char_def)

lemma parse_decimal_12: "parse_decimal ''12'' = Some 12"
  by (simp add: parse_decimal_def parse_nat_def is_digit_def digit_val_def)

lemma parse_decimal_8000: "parse_decimal ''8000'' = Some 8000"
  by (simp add: parse_decimal_def parse_nat_def is_digit_def digit_val_def)

lemma parse_decimal_x: "parse_decimal ''x'' = None"
  by (simp add: parse_decimal_def parse_nat_def is_digit_def digit_val_def)

lemma parse_decimal_300ms: "parse_decimal ''300ms'' = None"
  by (simp add: parse_decimal_def parse_nat_def is_digit_def digit_val_def)

lemma parse_decimal_big: "parse_decimal ''9223372037'' = Some 9223372037"
  by (simp add: parse_decimal_def parse_nat_def is_digit_def digit_val_def)

lemma parse_duration_300ms: "parse_duration ''300ms'' = Some 300000000"
  by (simp add: parse_duration_def parse_nat_def is_digit_def digit_val_def Millisecond_def)

lemma parse_duration_x: "parse_duration ''x'' = None"
  by (simp add: parse_duration_def parse_nat_def is_digit_def digit_val_def)

lemma parse_duration_10s: "parse_duration ''10s'' = Some 10000000000"
  by (simp add: parse_duration_def parse_nat_def is_digit_def digit_val_def Second_def)

subsection \<open>AllNodes\<close>

text \<open>
  C1. Whenever the membership engine exists (\<open>mlist\<close> is not nil), \<open>AllNodes\<close> returns
  without error exactly the entries of the membership table whose state is neither Dead
  nor Left, in table order; no node of a returned snapshot is Dead or Left.
\<close>

theorem AllNodes_snapshot:
  assumes "mlist st = Some ml"
  shows "AllNodes st = Inr (filter (\<lambda>n. State n \<noteq> StateDead \<and> State n \<noteq> StateLeft) (ml_nodes ml))
    \<and> (\<forall>ns. AllNodes st = Inr ns \<longrightarrow> (\<forall>n \<in> set ns. State n \<noteq> StateDead \<and> State n \<noteq> StateLeft))"
  using assms by (simp add: AllNodes_def Members_def foldl_append_single)

theorem AllNodes_snapshot_witness:
  "mlist (initial_state\<lparr>mlist := Some example_memberlist\<rparr>) = Some example_memberlist
   \<and> AllNodes (initial_state\<lparr>mlist := Some example_memberlist\<rparr>)
       = Inr [example_node StateAlive ''host1'', example_node StateSuspect ''host3'']"
  using AllNodes_snapshot [of "initial_state\<lparr>mlist := Some example_memberlist\<rparr>" example_memberlist]
  by (simp add: example_memberlist_def example_node_def)

subsection \<open>Calls while mlist is nil\<close>

text \<open>
  C4, as the code has it. While \<open>mlist\<close> is nil (before any engine was created, and after
  \<open>Shutdown\<close>), \<open>AllNodes\<close> returns the error "mlist is nil" to the caller, and
  \<open>LocalNode\<close> returns a nil node: its signature has no error result, so it reports none.
\<close>

theorem nil_mlist_results:
  assumes "mlist st = None"
  shows "AllNodes st = Inl (New ''mlist is nil'') \<and> LocalNode st = None
    \<and> reported_error (fst (invoke Op_AllNodes st)) = Some (New ''mlist is nil'')
    \<and> reported_error (fst (invoke Op_LocalNode st)) = None"
  using assms by (simp add: AllNodes_def LocalNode_def)

theorem nil_mlist_results_witness:
  "mlist (Shutdown (initial_state\<lparr>mlist := Some example_memberlist\<rparr>)) = None
   \<and> AllNodes (Shutdown (initial_state\<lparr>mlist := Some example_memberlist\<rparr>)) = Inl (New ''mlist is nil'')
   \<and> LocalNode (Shutdown (initial_state\<lparr>mlist := Some example_memberlist\<rparr>)) = None"
  using nil_mlist_results [of "Shutdown (initial_state\<lparr>mlist := Some example_memberlist\<rparr>)"]
  by (simp add: mlist_Shutdown)

text \<open>
  C4 as stated asks each of the two operations to report an error while \<open>mlist\<close> is nil.
  In the initial state \<open>mlist\<close> is nil and the call of \<open>LocalNode\<close> reports no error.
\<close>

theorem LocalNode_nil_counterexample:
  "mlist initial_state = None \<and> reported_error (fst (invoke Op_LocalNode initial_state)) = None"
  by (simp add: initial_state_def)

subsection \<open>RegisterServiceProvider\<close>

text \<open>
  C10. While \<open>mlist\<close> is nil, \<open>RegisterServiceProvider\<close> returns with the state as it
  was: the provider has received no node through AddNode, the subscriber list of the
  event delegate is unchanged, and the call reports no error.
\<close>

theorem RegisterServiceProvider_nil_mlist:
  assumes "mlist st = None"
  shows "RegisterServiceProvider sp st = st
    \<and> provided (RegisterServiceProvider sp st) = provided st
    \<and> ServiceProviders (RegisterServiceProvider sp st) = ServiceProviders st
    \<and> reported_error (fst (invoke (Op_RegisterServiceProvider sp) st)) = None"
  using assms by (simp add: RegisterServiceProvider_def)

theorem RegisterServiceProvider_nil_mlist_witness:
  "mlist initial_state = None
   \<and> RegisterServiceProvider 7 initial_state = initial_state
   \<and> provided (RegisterServiceProvider 7 initial_state) 7 = []
   \<and> ServiceProviders (RegisterServiceProvider 7 initial_state) = []"
  using RegisterServiceProvider_nil_mlist [of initial_state 7]
  by (simp add: initial_state_def)

subsection \<open>BaseUrl\<close>

text \<open>
  C5. For every node whose Meta bytes decode (by \<open>newMeta\<close>) to a merged meta,
  \<open>BaseUrl\<close> returns "http://", the node's Addr, ":", the meta's HTTP port in decimal
  and the meta's route root path, in that order.
\<close>

theorem BaseUrl_format:
  assumes "newMeta w node = Inr mm"
  shows "BaseUrl w node =
    Inr (''http://'' @ Addr node @ '':'' @ show_int (meta_Port (mm_Meta mm)) @ RouteRootPath (mm_Meta mm))"
  using assms by (simp add: BaseUrl_def)

theorem BaseUrl_format_witness:
  "newMeta (example_world []) (example_node StateAlive ''host2'') = Inr example_meta
   \<and> BaseUrl (example_world []) (example_node StateAlive ''host2'') = Inr ''http://10.0.0.1:6060/api''"
  using BaseUrl_format [of "example_world []" "example_node StateAlive ''host2''" example_meta]
  by (simp add: newMeta_def example_world_def example_node_def example_meta_def show_int_def
      show_nat_6060)

subsection \<open>NewNode without a service name\<close>

text \<open>
  C6. When neither the environment nor the default gives a service name, \<open>NewNode\<close>
  returns the configuration error to the caller and leaves the package state as it was:
  no membership engine has been created.
\<close>

theorem NewNode_no_service_name:
  assumes "IsEmpty w (Load w GddServiceName)" and "IsEmpty w (DefaultGddServiceName (dflt w))"
  shows "NewNode w data st =
    (Some (New (''NewNode() error: No env variable '' @ envName w GddServiceName @ '' found'')), st)"
  using assms by (simp add: NewNode_def IsNotEmpty_def Let_def)

theorem NewNode_no_service_name_witness:
  "IsEmpty (example_world []) (Load (example_world []) GddServiceName)
   \<and> IsEmpty (example_world []) (DefaultGddServiceName (dflt (example_world [])))
   \<and> NewNode (example_world []) [] initial_state
       = (Some (New ''NewNode() error: No env variable GDD_ENV found''), initial_state)"
  using NewNode_no_service_name [of "example_world []" "[]" initial_state]
  by (simp add: example_world_def env_of_def example_defaults_def)

subsection \<open>The weight interval\<close>

text \<open>
  C8. When the configured weight (the environment value, or the default when that does
  not convert) is greater than 0, \<open>newConf\<close> sets WeightInterval to 0; otherwise
  WeightInterval is read from the weight-interval option, starting from its default.
\<close>

theorem newConf_WeightInterval:
  "(0 < configuredWeight w \<longrightarrow> WeightInterval (newConf w) = 0)
   \<and> (\<not> 0 < configuredWeight w \<longrightarrow>
        WeightInterval (newConf w) =
          durationOption w (DefaultGddMemWeightInterval (dflt w)) Millisecond
            (Load w GddMemWeightInterval))"
  by (simp add: newConf_def Let_def)

theorem newConf_WeightInterval_witness:
  "0 < configuredWeight (example_world [(GddMemWeight, ''5''), (GddMemWeightInterval, ''1000'')])
   \<and> WeightInterval (newConf (example_world [(GddMemWeight, ''5''), (GddMemWeightInterval, ''1000'')])) = 0
   \<and> \<not> 0 < configuredWeight (example_world [(GddMemWeightInterval, ''1000'')])
   \<and> WeightInterval (newConf (example_world [(GddMemWeightInterval, ''1000'')])) = 1000000000"
  using newConf_WeightInterval [of "example_world [(GddMemWeight, ''5''), (GddMemWeightInterval, ''1000'')]"]
        newConf_WeightInterval [of "example_world [(GddMemWeightInterval, ''1000'')]"]
  by (simp add: configuredWeight_def example_world_def env_of_def example_defaults_def
      parse_decimal_5 parse_decimal_1000 parse_decimal_empty durationOption_def IsNotEmpty_def
      wrap64_def Millisecond_def)

subsection \<open>seeds\<close>

text \<open>The loop of \<open>seeds\<close> rewrites the entries from position \<open>i\<close> on, each by the loop body.\<close>

lemma seeds_loop_map:
  "i \<le> length s \<Longrightarrow> seeds_loop w i s = take i s @ map (seed_entry w) (drop i s)"
proof (induction w i s rule: seeds_loop.induct)
  case (1 w i s)
  show ?case
  proof (cases "i < length s")
    case True
    let ?s' = "s[i := seed_entry w (s ! i)]"
    have "seeds_loop w i s = seeds_loop w (Suc i) ?s'"
      using True by (simp add: seeds_loop.simps[of w i s])
    also have "\<dots> = take (Suc i) ?s' @ map (seed_entry w) (drop (Suc i) ?s')"
      using True "1.IH" by simp
    also have "take (Suc i) ?s' = take i s @ [seed_entry w (s ! i)]"
      using True by (simp add: take_Suc_conv_app_nth)
    also have "drop (Suc i) ?s' = drop (Suc i) s"
      by simp
    finally show ?thesis
      using True by (simp add: Cons_nth_drop_Suc[symmetric])
  next
    case False
    then have "i = length s" using "1.prems" by simp
    then show ?thesis by (subst seeds_loop.simps) simp
  qed
qed

lemma last_index_from_absent: "c \<notin> set s \<Longrightarrow> last_index_from s c i acc = acc"
  by (induction s arbitrary: i acc) auto

lemma last_index_from_last:
  "c \<notin> set b \<Longrightarrow> last_index_from (a @ c # b) c i acc = i + int (length a)"
  by (induction a arbitrary: i acc) (simp_all add: last_index_from_absent)

lemma LastIndex_absent: "c \<notin> set s \<Longrightarrow> strings_LastIndex s c = - 1"
  by (simp add: strings_LastIndex_def last_index_from_absent)

lemma LastIndex_last: "c \<notin> set b \<Longrightarrow> strings_LastIndex (a @ c # b) c = int (length a)"
  by (simp add: strings_LastIndex_def last_index_from_last)

lemma seed_entry_no_colon:
  "CHR '':'' \<notin> set seed \<Longrightarrow>
   seed_entry w seed = seed @ '':'' @ show_int (DefaultGddMemPort (dflt w))"
  by (simp add: seed_entry_def LastIndex_absent)

lemma seed_entry_colon:
  assumes "CHR '':'' \<notin> set p"
  shows "seed_entry w (host @ '':'' @ p) =
     (if p = [] then host @ '':''
      else case ToIntE w p of
             None \<Rightarrow> host @ '':'' @ show_int (DefaultGddMemPort (dflt w))
           | Some port \<Rightarrow> host @ '':'' @ show_int port)"
proof -
  have n: "nat (int (length host) + 1) = Suc (length host)" by simp
  have li: "strings_LastIndex (host @ '':'' @ p) CHR '':'' = int (length host)"
    using assms LastIndex_last[of "CHR '':''" p host] by simp
  show ?thesis
    unfolding seed_entry_def li Let_def n by (simp split: option.splits)
qed

lemma seed_entry_unparsed:
  "CHR '':'' \<notin> set p \<Longrightarrow> p \<noteq> [] \<Longrightarrow> ToIntE w p = None \<Longrightarrow>
   seed_entry w (host @ '':'' @ p) = host @ '':'' @ show_int (DefaultGddMemPort (dflt w))"
  using seed_entry_colon[of p w host] by simp

lemma seed_entry_parsed:
  "CHR '':'' \<notin> set p \<Longrightarrow> p \<noteq> [] \<Longrightarrow> ToIntE w p = Some port \<Longrightarrow>
   seed_entry w (host @ '':'' @ p) = host @ '':'' @ show_int port"
  using seed_entry_colon[of p w host] by simp

lemma seed_entry_trailing_colon: "seed_entry w (host @ '':'') = host @ '':''"
  using seed_entry_colon[of "[]" w host] by simp

lemma seeds_peer: "seeds (example_world kvs) ''peer'' = [''peer:7946'']"
  by (simp add: seeds_def seeds_loop.simps[of _ 0] seeds_loop.simps[of _ "Suc 0"]
      example_world_def example_defaults_def seed_entry_def strings_LastIndex_def
      show_int_def show_nat_7946)

lemma seeds_blank: "seeds (example_world kvs) [] = []"
  by (simp add: seeds_def example_world_def)

text \<open>
  C3, as the code has it. A blank seed string gives no seeds. Any other seed string is
  split on commas and every entry is rewritten on its own: an entry without a colon gets
  ":" and the default membership port of the config package (the constant
  DefaultGddMemPort, whatever port is configured); an entry host:port whose port text is
  not empty keeps its host and gets the port as cast.ToIntE reads it, or the same default
  port when ToIntE fails; an entry that ends in a colon stays as it is.
\<close>

theorem seeds_default_port:
  "(IsEmpty w seedstr \<longrightarrow> seeds w seedstr = [])
   \<and> (\<not> IsEmpty w seedstr \<longrightarrow>
        seeds w seedstr = map (seed_entry w) (strings_Split seedstr CHR '',''))
   \<and> (\<forall>seed. CHR '':'' \<notin> set seed \<longrightarrow>
        seed_entry w seed = seed @ '':'' @ show_int (DefaultGddMemPort (dflt w)))
   \<and> (\<forall>host p. CHR '':'' \<notin> set p \<and> p \<noteq> [] \<and> ToIntE w p = None \<longrightarrow>
        seed_entry w (host @ '':'' @ p) = host @ '':'' @ show_int (DefaultGddMemPort (dflt w)))
   \<and> (\<forall>host p port. CHR '':'' \<notin> set p \<and> p \<noteq> [] \<and> ToIntE w p = Some port \<longrightarrow>
        seed_entry w (host @ '':'' @ p) = host @ '':'' @ show_int port)
   \<and> (\<forall>host. seed_entry w (host @ '':'') = host @ '':'')"
proof (intro conjI allI impI)
  assume "IsEmpty w seedstr"
  then show "seeds w seedstr = []" by (simp add: seeds_def)
next
  assume "\<not> IsEmpty w seedstr"
  then show "seeds w seedstr = map (seed_entry w) (strings_Split seedstr CHR '','')"
    by (simp add: seeds_def seeds_loop_map)
next
  fix seed assume "CHR '':'' \<notin> set seed"
  then show "seed_entry w seed = seed @ '':'' @ show_int (DefaultGddMemPort (dflt w))"
    by (rule seed_entry_no_colon)
next
  fix host p assume "CHR '':'' \<notin> set p \<and> p \<noteq> [] \<and> ToIntE w p = None"
  then show "seed_entry w (host @ '':'' @ p) = host @ '':'' @ show_int (DefaultGddMemPort (dflt w))"
    using seed_entry_unparsed by blast
next
  fix host p port assume "CHR '':'' \<notin> set p \<and> p \<noteq> [] \<and> ToIntE w p = Some port"
  then show "seed_entry w (host @ '':'' @ p) = host @ '':'' @ show_int port"
    using seed_entry_parsed by blast
next
  fix host show "seed_entry w (host @ '':'') = host @ '':''"
    by (rule seed_entry_trailing_colon)
qed

theorem seeds_default_port_witness:
  "\<not> IsEmpty port_world ''a,b:12,c:,d:x''
   \<and> BindPort (newConf port_world) = 8000
   \<and> seeds port_world ''a,b:12,c:,d:x'' = [''a:7946'', ''b:12'', ''c:'', ''d:7946'']
   \<and> IsEmpty port_world ''  '' \<and> seeds port_world ''  '' = []"
proof -
  have b: "BindPort (newConf port_world) = 8000"
    by (simp add: port_world_def newConf_def Let_def example_world_def env_of_def
        parse_decimal_8000)
  show ?thesis
    using seeds_default_port [of port_world "''a,b:12,c:,d:x''"]
      seeds_default_port [of port_world "''  ''"] b
    by (simp add: port_world_def example_world_def example_defaults_def seed_entry_def
        strings_LastIndex_def show_int_def show_nat_7946 show_nat_12 parse_decimal_12
        parse_decimal_x)
qed

text \<open>
  C3 as stated gives an entry without a port the configured membership port, the port
  the engine is bound to. With the membership port configured as 8000 the engine binds
  8000, and the seed "peer" becomes "peer:7946".
\<close>

theorem seeds_configured_port_counterexample:
  "BindPort (newConf port_world) = 8000
   \<and> seeds port_world ''peer'' = [''peer:7946'']
   \<and> seeds port_world ''peer'' \<noteq> [''peer:'' @ show_int (BindPort (newConf port_world))]"
proof -
  have b: "BindPort (newConf port_world) = 8000"
    by (simp add: port_world_def newConf_def Let_def example_world_def env_of_def
        parse_decimal_8000)
  have s: "seeds port_world ''peer'' = [''peer:7946'']"
    by (simp add: port_world_def seeds_peer)
  show ?thesis unfolding b s by (simp add: show_int_def show_nat_8000)
qed

subsection \<open>The duration options of newConf\<close>

lemma newConf_option_field:
  "opt = WeightIntervalOpt \<longrightarrow> \<not> 0 < configuredWeight w \<Longrightarrow>
   option_field opt (newConf w) =
     durationOption w (option_default w opt) (option_unit opt) (Load w (option_key opt))"
  by (cases opt) (simp_all add: newConf_def Let_def)

lemma wrap64_id: "- (2 ^ 63) \<le> x \<Longrightarrow> x < 2 ^ 63 \<Longrightarrow> wrap64 x = x"
  by (simp add: wrap64_def)

lemma durationOption_integer:
  "\<not> IsEmpty w v \<Longrightarrow> Atoi w v = Some n \<Longrightarrow> - (2 ^ 63) \<le> n * unit \<Longrightarrow> n * unit < 2 ^ 63 \<Longrightarrow>
   durationOption w deflt unit v = n * unit"
  by (simp add: durationOption_def IsNotEmpty_def wrap64_id)

lemma durationOption_string:
  "\<not> IsEmpty w v \<Longrightarrow> Atoi w v = None \<Longrightarrow> ParseDuration w v = Some d \<Longrightarrow>
   durationOption w deflt unit v = d"
  by (simp add: durationOption_def IsNotEmpty_def)

lemma durationOption_default:
  "IsEmpty w v \<or> (Atoi w v = None \<and> ParseDuration w v = None) \<Longrightarrow>
   durationOption w deflt unit v = deflt"
  by (auto simp add: durationOption_def IsNotEmpty_def)

text \<open>
  The multiplication by the unit is an int64 multiplication: a bare integer too large
  for its unit wraps around. 9223372037 seconds become a negative probe interval.
\<close>

lemma ProbeInterval_wraps: "ProbeInterval (newConf overflow_world) = - 9223372036709551616"
  by (simp add: overflow_world_def newConf_def Let_def example_world_def env_of_def
      durationOption_def IsNotEmpty_def parse_decimal_big wrap64_def Second_def)

text \<open>
  C9, as the code has it. For every duration option of the table, the weight interval
  only while the weight is not pinned (not greater than 0): a value that is not empty
  and that strconv.Atoi accepts sets the field to that integer times the unit of the
  option, when the product fits in int64; a value that Atoi rejects and
  time.ParseDuration accepts sets the field to the duration as written; an empty value,
  or one that both reject, leaves the field at its default.
\<close>

theorem newConf_duration_options:
  assumes "opt = WeightIntervalOpt \<longrightarrow> \<not> 0 < configuredWeight w"
  shows "(\<forall>n. \<not> IsEmpty w (Load w (option_key opt)) \<and> Atoi w (Load w (option_key opt)) = Some n
            \<and> - (2 ^ 63) \<le> n * option_unit opt \<and> n * option_unit opt < 2 ^ 63
          \<longrightarrow> option_field opt (newConf w) = n * option_unit opt)
    \<and> (\<forall>d. \<not> IsEmpty w (Load w (option_key opt)) \<and> Atoi w (Load w (option_key opt)) = None
            \<and> ParseDuration w (Load w (option_key opt)) = Some d
          \<longrightarrow> option_field opt (newConf w) = d)
    \<and> (IsEmpty w (Load w (option_key opt))
          \<or> (Atoi w (Load w (option_key opt)) = None
              \<and> ParseDuration w (Load w (option_key opt)) = None)
        \<longrightarrow> option_field opt (newConf w) = option_default w opt)"
  unfolding newConf_option_field[OF assms]
  by (intro conjI allI impI)
     (auto simp: durationOption_integer durationOption_string durationOption_default)

theorem newConf_duration_options_witness:
  "Atoi duration_world (Load duration_world GddMemProbeInterval) = Some 5
   \<and> ProbeInterval (newConf duration_world) = 5000000000
   \<and> Atoi duration_world (Load duration_world GddMemGossipInterval) = None
   \<and> ParseDuration duration_world (Load duration_world GddMemGossipInterval) = Some 300000000
   \<and> GossipInterval (newConf duration_world) = 300000000
   \<and> Atoi duration_world (Load duration_world GddMemTCPTimeout) = None
   \<and> ParseDuration duration_world (Load duration_world GddMemTCPTimeout) = None
   \<and> TCPTimeout (newConf duration_world) = 10000000000
   \<and> \<not> 0 < configuredWeight duration_world
   \<and> Atoi duration_world (Load duration_world GddMemWeightInterval) = Some 1000
   \<and> WeightInterval (newConf duration_world) = 1000000000"
  using newConf_duration_options [of ProbeIntervalOpt duration_world]
    newConf_duration_options [of GossipIntervalOpt duration_world]
    newConf_duration_options [of TCPTimeoutOpt duration_world]
    newConf_duration_options [of WeightIntervalOpt duration_world]
  by (simp add: duration_world_def example_world_def env_of_def example_defaults_def
      configuredWeight_def parseOrZero_def Second_def Millisecond_def
      parse_decimal_5 parse_decimal_1000 parse_decimal_empty parse_decimal_x parse_decimal_300ms
      parse_duration_300ms parse_duration_x parse_duration_10s)

text \<open>
  C9 as stated covers the weight interval without condition. With the weight pinned to 5
  and the weight interval given as the bare integer 1000, the field is not 1000
  milliseconds.
\<close>

theorem weight_interval_pinned_counterexample:
  "\<not> IsEmpty pinned_world (Load pinned_world (option_key WeightIntervalOpt))
   \<and> Atoi pinned_world (Load pinned_world (option_key WeightIntervalOpt)) = Some 1000
   \<and> option_field WeightIntervalOpt (newConf pinned_world) \<noteq> 1000 * option_unit WeightIntervalOpt"
  by (simp add: pinned_world_def newConf_def Let_def example_world_def env_of_def
      example_defaults_def configuredWeight_def Millisecond_def parse_decimal_5
      parse_decimal_1000)

subsection \<open>join and NewNode\<close>

lemma Join_loop_unreachable:
  "\<forall>a \<in> set as. pushPull w a = None \<Longrightarrow> Join_loop w as ml n failed = (n, ml, failed @ as)"
  by (induction as arbitrary: failed) simp_all

lemma Join_unreachable:
  "s \<noteq> [] \<Longrightarrow> \<forall>a \<in> set s. pushPull w a = None \<Longrightarrow>
   Join w ml s = ((0, Some (Unreachable s)), ml)"
  by (simp add: Join_def Join_loop_unreachable)

lemma ml_config_mergeState: "ml_config (mergeState ml remote) = ml_config ml"
  by (simp add: mergeState_def)

lemma Join_loop_config:
  "Join_loop w as ml n failed = (n', ml', failed') \<Longrightarrow> ml_config ml' = ml_config ml"
  by (induction as arbitrary: ml n failed) (auto simp: ml_config_mergeState split: option.splits)

lemma Join_config: "Join w ml s = (r, ml') \<Longrightarrow> ml_config ml' = ml_config ml"
  by (auto simp: Join_def split: prod.splits dest: Join_loop_config)

lemma Create_Inr: "Create w conf = Inr ml \<Longrightarrow> ml_config ml = conf \<and> \<not> ml_shutdown ml"
  by (auto simp: Create_def split: option.splits)

lemma join_empty_seeds:
  assumes "mlist st \<noteq> None" and "seeds w (configuredSeed w) = []"
  shows "join w st = (None, st\<lparr>logged := logged st @ [Warnln ''No seed found'']\<rparr>)"
  using assms by (auto simp add: join_def Let_def)

lemma join_all_unreachable:
  assumes "mlist st \<noteq> None"
    and "seeds w (configuredSeed w) \<noteq> []"
    and "\<forall>a \<in> set (seeds w (configuredSeed w)). pushPull w a = None"
  shows "join w st =
    (Some (Wrap (Unreachable (seeds w (configuredSeed w))) ''Failed to join cluster''), st)"
proof -
  obtain ml where ml: "mlist st = Some ml" using assms(1) by auto
  then have "st\<lparr>mlist := Some ml\<rparr> = st" by (cases st) simp
  then show ?thesis
    using assms(2,3) ml by (simp add: join_def Let_def Join_unreachable)
qed

lemma join_config:
  assumes "mlist st = Some ml" and "join w st = (None, st')"
  shows "\<exists>ml'. mlist st' = Some ml' \<and> ml_config ml' = ml_config ml"
  using assms
  by (auto simp: join_def Let_def split: if_splits prod.splits option.splits dest: Join_config)

lemma join_success_config:
  assumes "join w st = (None, st')" and "mlist st \<noteq> None"
  shows "\<exists>ml'. mlist st' = Some ml' \<and> ml_config ml' = ml_config (the (mlist st))"
  using assms join_config[of st "the (mlist st)" w st'] by auto

lemma NewNode_join_failed:
  assumes "\<not> IsEmpty w (configuredService w)" and "\<forall>conf. bindTransport w conf = None"
    and "seeds w (configuredSeed w) \<noteq> []"
    and "\<forall>a \<in> set (seeds w (configuredSeed w)). pushPull w a = None"
  shows "fst (NewNode w data st) =
      Some (Wrap (Wrap (Unreachable (seeds w (configuredSeed w))) ''Failed to join cluster'')
              ''NewNode() error: Node register failed'')
    \<and> (\<exists>ml. mlist (snd (NewNode w data st)) = Some ml \<and> ml_shutdown ml)"
  using assms
  by (simp add: NewNode_def Let_def Create_def join_all_unreachable ml_Shutdown_def)

lemma NewNode_standalone:
  assumes "\<not> IsEmpty w (configuredService w)" and "\<forall>conf. bindTransport w conf = None"
    and "seeds w (configuredSeed w) = []"
  shows "fst (NewNode w data st) = None
    \<and> Warnln ''No seed found'' \<in> set (logged (snd (NewNode w data st)))
    \<and> (\<exists>ml. mlist (snd (NewNode w data st)) = Some ml \<and> \<not> ml_shutdown ml)"
  using assms
  by (simp add: NewNode_def Let_def Create_def join_empty_seeds)

lemma NewNode_data_rest: "NewNode w (d1 # ds) st = NewNode w [d1] st"
  by (simp add: NewNode_def Let_def split del: if_split cong: if_cong)

lemma NewNode_delegate:
  assumes "fst (NewNode w data st) = None"
  shows "\<exists>ml d. mlist (snd (NewNode w data st)) = Some ml \<and> Delegate (ml_config ml) = Some d
     \<and> mm_Data (mmeta d) = (case data of [] \<Rightarrow> Some Map.empty | d1 # ds \<Rightarrow> d1)"
proof (cases "IsEmpty w (configuredService w)")
  case True
  then show ?thesis using assms by (simp add: NewNode_def Let_def split del: if_split)
next
  case False
  show ?thesis
    using assms False
    apply (simp add: NewNode_def Let_def split del: if_split cong: if_cong)
    apply (simp split: sum.splits prod.splits option.splits split del: if_split cong: if_cong)
    apply (safe dest!: join_success_config Create_Inr)
    apply (simp_all split: list.splits)
    done
qed

lemma standalone_facts:
  "\<not> IsEmpty standalone_world (configuredService standalone_world)"
  "\<forall>conf. bindTransport standalone_world conf = None"
  "seeds standalone_world (configuredSeed standalone_world) = []"
  by (simp_all add: standalone_world_def example_world_def env_of_def example_defaults_def
      IsNotEmpty_def seeds_def)

lemma seeded_facts:
  "\<not> IsEmpty seeded_world (configuredService seeded_world)"
  "\<forall>conf. bindTransport seeded_world conf = None"
  "seeds seeded_world (configuredSeed seeded_world) = [''peer:7946'']"
  "\<forall>a. pushPull seeded_world a = None"
proof -
  have "configuredSeed seeded_world = ''peer''"
    by (simp add: seeded_world_def example_world_def env_of_def IsNotEmpty_def)
  then show "seeds seeded_world (configuredSeed seeded_world) = [''peer:7946'']"
    by (simp only: seeded_world_def seeds_peer)
qed (simp_all add: seeded_world_def example_world_def env_of_def example_defaults_def
      IsNotEmpty_def)

text \<open>
  C2. With the membership engine created: when the configured seed list is empty,
  \<open>join\<close> logs the warning "No seed found" and returns no error, and \<open>NewNode\<close>
  succeeds with the engine running (the node runs standalone); when the seed list is not
  empty and no seed can be reached, \<open>join\<close> returns the error of the engine wrapped as
  "Failed to join cluster", and \<open>NewNode\<close> shuts the engine down and returns that error,
  wrapped as "NewNode() error: Node register failed", to the caller.
\<close>

theorem join_seed_outcomes:
  "(mlist st \<noteq> None \<and> seeds w (configuredSeed w) = [] \<longrightarrow>
      join w st = (None, st\<lparr>logged := logged st @ [Warnln ''No seed found'']\<rparr>))
   \<and> (mlist st \<noteq> None \<and> seeds w (configuredSeed w) \<noteq> []
        \<and> (\<forall>a \<in> set (seeds w (configuredSeed w)). pushPull w a = None) \<longrightarrow>
      join w st =
        (Some (Wrap (Unreachable (seeds w (configuredSeed w))) ''Failed to join cluster''), st))
   \<and> (\<not> IsEmpty w (configuredService w) \<and> (\<forall>conf. bindTransport w conf = None)
        \<and> seeds w (configuredSeed w) = [] \<longrightarrow>
      fst (NewNode w data st) = None
      \<and> Warnln ''No seed found'' \<in> set (logged (snd (NewNode w data st)))
      \<and> (\<exists>ml. mlist (snd (NewNode w data st)) = Some ml \<and> \<not> ml_shutdown ml))
   \<and> (\<not> IsEmpty w (configuredService w) \<and> (\<forall>conf. bindTransport w conf = None)
        \<and> seeds w (configuredSeed w) \<noteq> []
        \<and> (\<forall>a \<in> set (seeds w (configuredSeed w)). pushPull w a = None) \<longrightarrow>
      fst (NewNode w data st) =
        Some (Wrap (Wrap (Unreachable (seeds w (configuredSeed w))) ''Failed to join cluster'')
                ''NewNode() error: Node register failed'')
      \<and> (\<exists>ml. mlist (snd (NewNode w data st)) = Some ml \<and> ml_shutdown ml))"
  using join_empty_seeds[of st w] join_all_unreachable[of st w]
    NewNode_standalone[of w data st] NewNode_join_failed[of w data st]
  by blast

theorem join_seed_outcomes_witness:
  "mlist created_state \<noteq> None
   \<and> seeds standalone_world (configuredSeed standalone_world) = []
   \<and> join standalone_world created_state
       = (None, created_state\<lparr>logged := logged created_state @ [Warnln ''No seed found'']\<rparr>)
   \<and> fst (NewNode standalone_world [] initial_state) = None
   \<and> seeds seeded_world (configuredSeed seeded_world) = [''peer:7946'']
   \<and> pushPull seeded_world ''peer:7946'' = None
   \<and> join seeded_world created_state
       = (Some (Wrap (Unreachable [''peer:7946'']) ''Failed to join cluster''), created_state)
   \<and> fst (NewNode seeded_world [] initial_state)
       = Some (Wrap (Wrap (Unreachable [''peer:7946'']) ''Failed to join cluster'')
                 ''NewNode() error: Node register failed'')
   \<and> (\<exists>ml. mlist (snd (NewNode seeded_world [] initial_state)) = Some ml \<and> ml_shutdown ml)"
proof -
  have c: "mlist created_state \<noteq> None" by (simp add: created_state_def)
  show ?thesis
    using join_seed_outcomes [where st = created_state and w = standalone_world]
      join_seed_outcomes [where st = initial_state and w = standalone_world and data = "[]"]
      join_seed_outcomes [where st = created_state and w = seeded_world]
      join_seed_outcomes [where st = initial_state and w = seeded_world and data = "[]"]
      c standalone_facts seeded_facts
    by simp
qed

text \<open>
  C7. Only the first element of the variadic argument of \<open>NewNode\<close> is used: any further
  elements change neither the result nor the state. When \<open>NewNode\<close> succeeds, the user
  data in the merged meta of the delegate of the local node is the first element, and
  an empty map when no element was passed.
\<close>

theorem NewNode_first_data_only:
  "NewNode w (d1 # ds) st = NewNode w [d1] st
   \<and> (fst (NewNode w [] st) = None \<longrightarrow>
        (\<exists>ml d. mlist (snd (NewNode w [] st)) = Some ml \<and> Delegate (ml_config ml) = Some d
           \<and> mm_Data (mmeta d) = Some Map.empty))
   \<and> (fst (NewNode w (d1 # ds) st) = None \<longrightarrow>
        (\<exists>ml d. mlist (snd (NewNode w (d1 # ds) st)) = Some ml \<and> Delegate (ml_config ml) = Some d
           \<and> mm_Data (mmeta d) = d1))"
  using NewNode_data_rest[of w d1 ds st] NewNode_delegate[of w "[]" st]
    NewNode_delegate[of w "d1 # ds" st]
  by simp

theorem NewNode_first_data_only_witness:
  "fst (NewNode standalone_world [] initial_state) = None
   \<and> (\<exists>ml d. mlist (snd (NewNode standalone_world [] initial_state)) = Some ml
         \<and> Delegate (ml_config ml) = Some d \<and> mm_Data (mmeta d) = Some Map.empty)
   \<and> fst (NewNode standalone_world [Some [''zone'' \<mapsto> JString ''a''], None] initial_state) = None
   \<and> (\<exists>ml d. mlist (snd (NewNode standalone_world [Some [''zone'' \<mapsto> JString ''a''], None] initial_state)) = Some ml
         \<and> Delegate (ml_config ml) = Some d \<and> mm_Data (mmeta d) = Some [''zone'' \<mapsto> JString ''a''])
   \<and> NewNode standalone_world [Some [''zone'' \<mapsto> JString ''a''], None] initial_state
       = NewNode standalone_world [Some [''zone'' \<mapsto> JString ''a'']] initial_state"
proof -
  let ?d = "Some [''zone'' \<mapsto> JString ''a'']"
  have a: "fst (NewNode standalone_world [] initial_state) = None"
    using NewNode_standalone [OF standalone_facts, of "[]" initial_state] by blast
  have b: "fst (NewNode standalone_world [?d, None] initial_state) = None"
    using NewNode_standalone [OF standalone_facts, of "[?d, None]" initial_state] by blast
  show ?thesis
    using NewNode_first_data_only [of standalone_world ?d "[None]" initial_state] a b
    by blast
qed

end
